theory Spec2Isabelle
  imports Main
begin

section \<open>The capture handler of the fingerprint sensor server\<close>

text \<open>
  The server (\<^verbatim>\<open>main.go\<close>) has one handler, \<^verbatim>\<open>HandleCapture\<close>. It picks a Python
  interpreter, runs \<^verbatim>\<open>capture.py\<close> as a child process with its standard output and
  standard error collected in two buffers, and turns the outcome into an HTTP response.

  The handler is embedded as a function over an explicit state. Everything the handler
  asks of its surroundings (the platform name, the file system, the child process, the
  connection behind the response writer) is a field of the record \<open>world\<close>; the calls
  into Go's standard library are small functions over that record, named after the Go
  functions they stand for. Go strings and byte buffers are byte sequences, and so is
  \<^typ>\<open>string\<close>.
\<close>

subsection \<open>Go values\<close>

text \<open>
  Values of Go's \<^verbatim>\<open>error\<close> interface that the handler can meet: the \<^verbatim>\<open>*exec.ExitError\<close>
  of a child that ended with a non-zero status, \<^verbatim>\<open>exec\<close>'s refusal to start a command
  with an empty path, \<^verbatim>\<open>io.ErrShortWrite\<close>, and any other error, kept with its text.
\<close>

datatype go_error = ExitError nat | ErrNoCommand | ErrShortWrite | OSError string

text \<open>
  A call of the standard logger is kept as it is made: the format (for \<^verbatim>\<open>log.Printf\<close>)
  and the operands. \<open>Dur\<close> is a \<^verbatim>\<open>time.Duration\<close> in nanoseconds.
\<close>

datatype log_arg = Str string | Err go_error | Dur int

datatype log_call = Printf string "log_arg list" | Println "log_arg list"

text \<open>
  What a started child does: its exit status, what it writes to standard output and to
  standard error, and how long it runs (nanoseconds).
\<close>

record process =
  exit_status :: nat
  out :: string
  err :: string
  run_ns :: nat

text \<open>
  The surroundings of one request.
  \<^item> \<open>GOOS\<close>: \<^verbatim>\<open>runtime.GOOS\<close>.
  \<^item> \<open>os_Stat\<close>: the error of \<^verbatim>\<open>os.Stat\<close> on a path, \<open>None\<close> for \<^verbatim>\<open>nil\<close>.
  \<^item> \<open>filepath_Abs\<close>: \<^verbatim>\<open>filepath.Abs\<close> on a path, the absolute path or the error.
  \<^item> \<open>start_process\<close>: starting a program (looked up on the search path when the name
    has no directory part) with an argument vector: the child, or the error of the
    failed start.
  \<^item> \<open>conn_Write\<close>: what \<^verbatim>\<open>Write\<close> on the response writer reports for some data: the
    count of bytes taken and an error, \<open>None\<close> for \<^verbatim>\<open>nil\<close>.
\<close>

record world =
  GOOS :: string
  os_Stat :: "string \<Rightarrow> go_error option"
  filepath_Abs :: "string \<Rightarrow> go_error + string"
  start_process :: "string \<Rightarrow> string list \<Rightarrow> go_error + process"
  conn_Write :: "string \<Rightarrow> nat \<times> go_error option"

text \<open>
  What outlives a request: the clock (nanoseconds), the output of the standard logger,
  and the number of children that were started and not yet waited for.
\<close>

record st =
  clock :: int
  logs :: "log_call list"
  running :: nat

definition time_Now :: "st \<Rightarrow> int" where
  "time_Now s = clock s"

definition time_Since :: "int \<Rightarrow> st \<Rightarrow> int" where
  "time_Since t s = time_Now s - t"

definition log_Printf :: "string \<Rightarrow> log_arg list \<Rightarrow> st \<Rightarrow> st" where
  "log_Printf fmt args s = s\<lparr>logs := logs s @ [Printf fmt args]\<rparr>"

definition log_Println :: "log_arg list \<Rightarrow> st \<Rightarrow> st" where
  "log_Println args s = s\<lparr>logs := logs s @ [Println args]\<rparr>"

subsection \<open>path/filepath\<close>

definition newline :: char where
  "newline = CHR 0x0A"

definition Separator :: "string \<Rightarrow> char" where
  "Separator goos = (if goos = ''windows'' then CHR 0x5C else CHR ''/'')"

fun join_with :: "char \<Rightarrow> string list \<Rightarrow> string" where
  "join_with sep [] = []"
| "join_with sep [e] = e"
| "join_with sep (e # f # fs) = e @ sep # join_with sep (f # fs)"

text \<open>
  \<^verbatim>\<open>filepath.Join\<close>: the non-empty elements, joined by the platform's separator. (Join
  also cleans the result; the handler's elements are plain names, which cleaning leaves
  as they are.)
\<close>

definition filepath_Join :: "string \<Rightarrow> string list \<Rightarrow> string" where
  "filepath_Join goos elems = join_with (Separator goos) (filter (\<lambda>e. e \<noteq> []) elems)"

text \<open>
  \<^verbatim>\<open>filepath.Abs\<close> returns a pair in Go: the path and the error. With a non-nil error
  the path it returns is the empty string. \<open>abs_path\<close> is the first component, the one
  an assignment \<^verbatim>\<open>p, _ = filepath.Abs(p)\<close> keeps.
\<close>

definition abs_path :: "go_error + string \<Rightarrow> string" where
  "abs_path r = (case r of Inl e \<Rightarrow> [] | Inr p \<Rightarrow> p)"

subsection \<open>os/exec\<close>

text \<open>
  The handler declares two \<^verbatim>\<open>bytes.Buffer\<close> variables and gives the command a pointer to
  each. \<open>buf\<close> names the two variables, and \<open>buffers\<close> is the store that holds their
  contents; a new \<^verbatim>\<open>bytes.Buffer\<close> is empty.
\<close>

datatype buf = StdoutBuf | StderrBuf

type_synonym buffers = "buf \<Rightarrow> string"

definition new_buffers :: buffers where
  "new_buffers = (\<lambda>b. [])"

text \<open>
  An \<^verbatim>\<open>exec.Cmd\<close>. \<open>Name\<close> is the program name as it is given to \<^verbatim>\<open>exec.Command\<close>,
  and Go's \<open>Args\<close> holds that name first, then the arguments. \<open>Stdout\<close> and
  \<open>Stderr\<close> say where the child's two streams go: \<open>None\<close> is Go's \<^verbatim>\<open>nil\<close>, with which
  the stream is discarded, and \<open>Some b\<close> is a pointer to the buffer \<open>b\<close>.

  Go's \<^verbatim>\<open>Cmd\<close> has a field \<^verbatim>\<open>Path\<close> besides: the name, or for a name without a directory
  part the file that \<^verbatim>\<open>exec.LookPath\<close> finds for it on the search path. That field is
  not a field here. Finding the program for a name is part of \<open>start_process\<close>, and a
  lookup that fails is a start that fails.
\<close>

record Cmd =
  Name :: string
  Args :: "string list"
  Stdout :: "buf option"
  Stderr :: "buf option"

definition exec_Command :: "string \<Rightarrow> string list \<Rightarrow> Cmd" where
  "exec_Command name arg = \<lparr>Name = name, Args = name # arg, Stdout = None, Stderr = None\<rparr>"

definition write_to :: "buf option \<Rightarrow> string \<Rightarrow> buffers \<Rightarrow> buffers" where
  "write_to dst d bufs = (case dst of None \<Rightarrow> bufs | Some b \<Rightarrow> bufs(b := bufs b @ d))"

text \<open>
  \<^verbatim>\<open>Cmd.Start\<close>: a command made from the empty name has an empty \<^verbatim>\<open>Path\<close> (no lookup is
  made for it) and is refused (\<^verbatim>\<open>exec: no command\<close>); otherwise the program is started,
  or the start fails with the error of the world.
\<close>

definition cmd_Start :: "world \<Rightarrow> Cmd \<Rightarrow> st \<Rightarrow> (go_error + process) \<times> st" where
  "cmd_Start w c s =
     (if Name c = [] then (Inl ErrNoCommand, s)
      else case start_process w (Name c) (Args c) of
             Inl e \<Rightarrow> (Inl e, s)
           | Inr p \<Rightarrow> (Inr p, s\<lparr>running := Suc (running s)\<rparr>))"

text \<open>
  \<^verbatim>\<open>Cmd.Wait\<close>: blocks until the child has ended, so the clock moves on by the child's
  running time; what the child wrote to each stream has then been copied to where the
  command sends that stream; the error is \<^verbatim>\<open>nil\<close> exactly for exit status 0.
\<close>

definition cmd_Wait :: "Cmd \<Rightarrow> process \<Rightarrow> buffers \<Rightarrow> st \<Rightarrow> go_error option \<times> buffers \<times> st" where
  "cmd_Wait c p bufs s =
     ((if exit_status p = 0 then None else Some (ExitError (exit_status p))),
      write_to (Stderr c) (err p) (write_to (Stdout c) (out p) bufs),
      s\<lparr>clock := clock s + int (run_ns p),
        running := running s - 1\<rparr>)"

text \<open>\<^verbatim>\<open>Cmd.Run\<close> is \<^verbatim>\<open>Start\<close>, then \<^verbatim>\<open>Wait\<close> unless the start failed.\<close>

definition cmd_Run :: "world \<Rightarrow> Cmd \<Rightarrow> buffers \<Rightarrow> st \<Rightarrow> go_error option \<times> buffers \<times> st" where
  "cmd_Run w c bufs s =
     (case cmd_Start w c s of
        (Inl e, s') \<Rightarrow> (Some e, bufs, s')
      | (Inr p, s') \<Rightarrow> cmd_Wait c p bufs s')"

subsection \<open>net/http\<close>

text \<open>
  What the handler hands to its \<^verbatim>\<open>http.ResponseWriter\<close>: the status code once the
  header is written, the header map, and the data of each \<^verbatim>\<open>Write\<close> call in order.
  The body of the response is the data written. What the connection does with it is
  the HTTP runtime's business; the handler sees of it only what \<^verbatim>\<open>Write\<close> returns.
\<close>

record response =
  status :: "nat option"
  header :: "string \<rightharpoonup> string"
  writes :: "string list"

definition new_response :: response where
  "new_response = \<lparr>status = None, header = Map.empty, writes = []\<rparr>"

definition body :: "response \<Rightarrow> string" where
  "body r = concat (writes r)"

definition StatusOK :: nat where
  "StatusOK = 200"

definition StatusInternalServerError :: nat where
  "StatusInternalServerError = 500"

definition Header_Set :: "string \<Rightarrow> string \<Rightarrow> response \<Rightarrow> response" where
  "Header_Set k v r = r\<lparr>header := (header r)(k \<mapsto> v)\<rparr>"

definition Header_Del :: "string \<Rightarrow> response \<Rightarrow> response" where
  "Header_Del k r = r\<lparr>header := (header r)(k := None)\<rparr>"

text \<open>\<^verbatim>\<open>WriteHeader\<close>: the first call fixes the status code, a later one changes nothing.\<close>

definition WriteHeader :: "nat \<Rightarrow> response \<Rightarrow> response" where
  "WriteHeader code r = (case status r of None \<Rightarrow> r\<lparr>status := Some code\<rparr> | Some c \<Rightarrow> r)"

text \<open>
  \<^verbatim>\<open>Write\<close>: writes the header with status 200 if none was written, then the data. It
  returns the count and the error of the connection; by the contract of \<^verbatim>\<open>io.Writer\<close>
  the count is at most the length of the data.
\<close>

definition rw_Write :: "world \<Rightarrow> string \<Rightarrow> response \<Rightarrow> (nat \<times> go_error option) \<times> response" where
  "rw_Write w d r =
     (let r1 = WriteHeader StatusOK r;
          (n, e) = conn_Write w d
      in ((min n (length d), e), r1\<lparr>writes := writes r1 @ [d]\<rparr>))"

text \<open>
  \<^verbatim>\<open>http.Error\<close>: drops \<^verbatim>\<open>Content-Length\<close>, sets the content type to plain text and
  \<^verbatim>\<open>X-Content-Type-Options\<close>, writes the header with the code, and prints the message
  with \<^verbatim>\<open>fmt.Fprintln\<close>, that is followed by a newline; the result of that write is
  not looked at.
\<close>

definition http_Error :: "world \<Rightarrow> response \<Rightarrow> string \<Rightarrow> nat \<Rightarrow> response" where
  "http_Error w r msg code =
     (let r1 = Header_Del ''Content-Length'' r;
          r2 = Header_Set ''Content-Type'' ''text/plain; charset=utf-8'' r1;
          r3 = Header_Set ''X-Content-Type-Options'' ''nosniff'' r2;
          r4 = WriteHeader code r3
      in snd (rw_Write w (msg @ [newline]) r4))"

text \<open>
  \<^verbatim>\<open>io.Copy\<close> from a \<^verbatim>\<open>bytes.Buffer\<close>: the buffer writes its whole content with one
  \<^verbatim>\<open>Write\<close>. The error is that of the write, or \<^verbatim>\<open>io.ErrShortWrite\<close> when the write
  took fewer bytes without an error.
\<close>

definition io_Copy :: "world \<Rightarrow> response \<Rightarrow> string \<Rightarrow> (nat \<times> go_error option) \<times> response" where
  "io_Copy w r buf =
     (if buf = [] then ((0, None), r)
      else let ((m, e), r') = rw_Write w buf r
           in case e of
                Some x \<Rightarrow> ((m, Some x), r')
              | None \<Rightarrow> if m \<noteq> length buf then ((m, Some ErrShortWrite), r') else ((m, None), r'))"

subsection \<open>main.go\<close>

definition pythonScript :: string where
  "pythonScript = ''capture.py''"

text \<open>
  Lines 30 to 45 of \<^verbatim>\<open>HandleCapture\<close>: the path of the interpreter in the virtual
  environment, the default name, and the choice between them after \<^verbatim>\<open>os.Stat\<close>. The
  assignments are kept in the order of the source.
\<close>

definition venvPythonPath :: "world \<Rightarrow> string" where
  "venvPythonPath w =
     (let p = filepath_Join (GOOS w) [''venv'', ''bin'', ''python3'']
      in if GOOS w = ''windows'' then filepath_Join (GOOS w) [''venv'', ''Scripts'', ''python.exe'']
         else p)"

definition default_pythonExec :: "world \<Rightarrow> string" where
  "default_pythonExec w =
     (let pythonExec = ''python3''
      in if GOOS w = ''windows'' then ''python'' else pythonExec)"

definition resolve_interpreter :: "world \<Rightarrow> st \<Rightarrow> string \<times> st" where
  "resolve_interpreter w s =
     (let venv = venvPythonPath w;
          pythonExec = default_pythonExec w
      in case os_Stat w venv of
           None \<Rightarrow>
             (let s1 = log_Println [Str ''Found virtual environment python executable at'', Str venv] s;
                  venv' = abs_path (filepath_Abs w venv)
              in (venv', s1))
         | Some e \<Rightarrow> (pythonExec, s))"

text \<open>
  Lines 47 to 54: the command with its two streams pointed at the two buffers, the
  buffers themselves, new in every call, and \<^verbatim>\<open>cmd.Run()\<close>. The result is the error of
  \<^verbatim>\<open>Run\<close>, the contents of the two buffers as \<^verbatim>\<open>Run\<close> leaves them, and the state.
\<close>

definition capture_cmd :: "string \<Rightarrow> Cmd" where
  "capture_cmd pythonExec =
     (let cmd = exec_Command pythonExec [pythonScript]
      in cmd\<lparr>Stdout := Some StdoutBuf, Stderr := Some StderrBuf\<rparr>)"

text \<open>
  The child that the handler's command starts in a world, or the error of the failed
  start.
\<close>

definition child :: "world \<Rightarrow> st \<Rightarrow> go_error + process" where
  "child w s =
     (let (pythonExec, s1) = resolve_interpreter w s
      in fst (cmd_Start w (capture_cmd pythonExec) s1))"

definition run_capture :: "world \<Rightarrow> st \<Rightarrow> go_error option \<times> string \<times> string \<times> st" where
  "run_capture w s =
     (let (pythonExec, s1) = resolve_interpreter w s;
          (e, bufs, s2) = cmd_Run w (capture_cmd pythonExec) new_buffers s1
      in (e, bufs StdoutBuf, bufs StderrBuf, s2))"

text \<open>Lines 55 to 76: from the outcome of the run to the response.\<close>

definition respond :: "world \<Rightarrow> go_error option \<Rightarrow> string \<Rightarrow> string \<Rightarrow> st \<Rightarrow> response \<Rightarrow> st \<times> response" where
  "respond w e stdoutBuf stderrBuf s rw =
     (case e of
        Some x \<Rightarrow>
          (let s1 = log_Printf ''Failed to capture fingerprint %v'' [Err x] s;
               s2 = log_Printf (''Python stdout:'' @ [newline] @ ''%s'' @ [newline]) [Str stdoutBuf] s1;
               s3 = log_Printf (''Python stderr:'' @ [newline] @ ''%s'' @ [newline]) [Str stderrBuf] s2
           in (s3, http_Error w rw (''Failed to capture fingerprint: '' @ stderrBuf)
                     StatusInternalServerError))
      | None \<Rightarrow>
          if length stdoutBuf = 0 then
            (log_Println [Str ''Python script returned empty output.''] s,
             http_Error w rw ''No data received from Python script'' StatusInternalServerError)
          else
            (let rw1 = Header_Set ''Content-Type'' ''image/png'' rw;
                 ((n, e'), rw2) = io_Copy w rw1 stdoutBuf
             in case e' of Some x \<Rightarrow> (s, rw2) | None \<Rightarrow> (s, rw2)))"

definition handler_body :: "world \<Rightarrow> st \<Rightarrow> response \<Rightarrow> st \<times> response" where
  "handler_body w s rw =
     (let (e, stdoutBuf, stderrBuf, s1) = run_capture w s
      in respond w e stdoutBuf stderrBuf s1 rw)"

text \<open>
  \<^verbatim>\<open>HandleCapture\<close>: the time is read on entry; the deferred function runs when the
  body has returned, on whichever path, and logs the time since entry.
\<close>

definition HandleCapture :: "world \<Rightarrow> st \<Rightarrow> response \<Rightarrow> st \<times> response" where
  "HandleCapture w s rw =
     (let now = time_Now s;
          (s', rw') = handler_body w s rw
      in (log_Printf ''sent fingerprint image and took %s'' [Dur (time_Since now s')] s', rw'))"

text \<open>
  What the handler sees of the child in one request: the error of \<^verbatim>\<open>cmd.Run()\<close> and
  the contents of the two buffers after it.
\<close>

definition run_outcome :: "world \<Rightarrow> st \<Rightarrow> go_error option \<times> string \<times> string" where
  "run_outcome w s =
     (let (e, stdoutBuf, stderrBuf, s') = run_capture w s in (e, stdoutBuf, stderrBuf))"

text \<open>
  The response to a request that arrives in state \<open>s\<close> with a new response writer, and
  the state the handler leaves.
\<close>

abbreviation reply :: "world \<Rightarrow> st \<Rightarrow> response" where
  "reply w s \<equiv> snd (HandleCapture w s new_response)"

abbreviation after :: "world \<Rightarrow> st \<Rightarrow> st" where
  "after w s \<equiv> fst (HandleCapture w s new_response)"

subsection \<open>Scenarios\<close>

text \<open>
  Three children: one that prints an image, one that fails with a message on standard
  error, and one that ends with status 0 and prints nothing on standard output.
\<close>

definition ok_process :: process where
  "ok_process = \<lparr>exit_status = 0, out = ''OKDATA'', err = [], run_ns = 1500\<rparr>"

definition failing_process :: process where
  "failing_process = \<lparr>exit_status = 1, out = [], err = ''sensor not found'', run_ns = 700\<rparr>"

definition silent_process :: process where
  "silent_process = \<lparr>exit_status = 0, out = [], err = ''warming up'', run_ns = 300\<rparr>"

text \<open>
  A POSIX host without a virtual environment, where \<^verbatim>\<open>python3\<close> on the search path
  runs the given child and every write to the connection goes through.
\<close>

definition posix_world :: "process \<Rightarrow> world" where
  "posix_world p =
     \<lparr>GOOS = ''linux'',
      os_Stat = (\<lambda>path. Some (OSError ''no such file or directory'')),
      filepath_Abs = (\<lambda>path. Inr (''/app/'' @ path)),
      start_process = (\<lambda>name argv. if name = ''python3'' then Inr p
                                   else Inl (OSError ''executable file not found'')),
      conn_Write = (\<lambda>d. (length d, None))\<rparr>"

text \<open>The same host with a virtual environment under \<^verbatim>\<open>/app\<close>.\<close>

definition venv_world :: "process \<Rightarrow> world" where
  "venv_world p =
     \<lparr>GOOS = ''linux'',
      os_Stat = (\<lambda>path. if path = ''venv/bin/python3'' then None
                         else Some (OSError ''no such file or directory'')),
      filepath_Abs = (\<lambda>path. Inr (''/app/'' @ path)),
      start_process = (\<lambda>name argv. if name = ''/app/venv/bin/python3'' then Inr p
                                   else Inl (OSError ''executable file not found'')),
      conn_Write = (\<lambda>d. (length d, None))\<rparr>"

text \<open>
  A host where the virtual environment is there and the working directory cannot be
  read, so that \<^verbatim>\<open>filepath.Abs\<close> fails.
\<close>

definition lost_cwd_world :: "process \<Rightarrow> world" where
  "lost_cwd_world p =
     \<lparr>GOOS = ''linux'',
      os_Stat = (\<lambda>path. if path = ''venv/bin/python3'' then None
                         else Some (OSError ''no such file or directory'')),
      filepath_Abs = (\<lambda>path. Inl (OSError ''getwd: no such file or directory'')),
      start_process = (\<lambda>name argv. if name = ''python3'' then Inr p
                                   else Inl (OSError ''executable file not found'')),
      conn_Write = (\<lambda>d. (length d, None))\<rparr>"

text \<open>A windows host without a virtual environment.\<close>

definition windows_world :: "process \<Rightarrow> world" where
  "windows_world p =
     \<lparr>GOOS = ''windows'',
      os_Stat = (\<lambda>path. Some (OSError ''The system cannot find the path specified.'')),
      filepath_Abs = (\<lambda>path. Inr (''C:'' @ [CHR 0x5C] @ ''app'' @ [CHR 0x5C] @ path)),
      start_process = (\<lambda>name argv. if name = ''python'' then Inr p
                                   else Inl (OSError ''executable file not found'')),
      conn_Write = (\<lambda>d. (length d, None))\<rparr>"

text \<open>A host without any Python: every start fails.\<close>

definition no_python_world :: world where
  "no_python_world =
     \<lparr>GOOS = ''linux'',
      os_Stat = (\<lambda>path. Some (OSError ''no such file or directory'')),
      filepath_Abs = (\<lambda>path. Inr (''/app/'' @ path)),
      start_process = (\<lambda>name argv. Inl (OSError ''executable file not found'')),
      conn_Write = (\<lambda>d. (length d, None))\<rparr>"

text \<open>A client that hangs up: the connection takes two bytes and reports an error.\<close>

definition hangup_world :: "process \<Rightarrow> world" where
  "hangup_world p = (posix_world p)\<lparr>conn_Write := (\<lambda>d. (2, Some (OSError ''broken pipe'')))\<rparr>"

definition boot :: st where
  "boot = \<lparr>clock = 0, logs = [], running = 0\<rparr>"

section \<open>Facts about the embedding\<close>

subsection \<open>The steps of the handler\<close>

lemma resolve_interpreter_fst:
  "fst (resolve_interpreter w s) =
     (case os_Stat w (venvPythonPath w) of
        None \<Rightarrow> abs_path (filepath_Abs w (venvPythonPath w))
      | Some e \<Rightarrow> default_pythonExec w)"
  by (simp add: resolve_interpreter_def Let_def split: option.splits)

lemma resolve_interpreter_snd:
  "snd (resolve_interpreter w s) =
     (case os_Stat w (venvPythonPath w) of
        None \<Rightarrow> log_Println [Str ''Found virtual environment python executable at'',
                              Str (venvPythonPath w)] s
      | Some e \<Rightarrow> s)"
  by (simp add: resolve_interpreter_def Let_def split: option.splits)

lemma resolve_interpreter_keeps:
  "clock (snd (resolve_interpreter w s)) = clock s"
  "running (snd (resolve_interpreter w s)) = running s"
  by (simp_all add: resolve_interpreter_snd log_Println_def split: option.splits)

lemma child_eq:
  "child w s =
     (if fst (resolve_interpreter w s) = [] then Inl ErrNoCommand
      else start_process w (fst (resolve_interpreter w s))
             [fst (resolve_interpreter w s), ''capture.py''])"
  by (simp add: child_def cmd_Start_def capture_cmd_def exec_Command_def pythonScript_def
      Let_def split: prod.splits sum.splits)

lemma run_capture_started:
  assumes "child w s = Inr p"
  shows "run_capture w s =
           ((if exit_status p = 0 then None else Some (ExitError (exit_status p))),
            out p, err p,
            (snd (resolve_interpreter w s))\<lparr>clock := clock s + int (run_ns p),
                                            running := running s\<rparr>)"
proof -
  obtain i s1 where r: "resolve_interpreter w s = (i, s1)"
    by (cases "resolve_interpreter w s")
  have k: "clock s1 = clock s" "running s1 = running s"
    using resolve_interpreter_keeps [of w s] r by simp_all
  from assms r have "fst (cmd_Start w (capture_cmd i) s1) = Inr p"
    by (simp add: child_def)
  then have st: "cmd_Start w (capture_cmd i) s1 = (Inr p, s1\<lparr>running := Suc (running s1)\<rparr>)"
    by (auto simp: cmd_Start_def split: if_splits sum.splits)
  show ?thesis
    using r st k
    by (simp add: run_capture_def cmd_Run_def cmd_Wait_def capture_cmd_def exec_Command_def
        write_to_def new_buffers_def)
qed

lemma run_capture_not_started:
  assumes "child w s = Inl e"
  shows "run_capture w s = (Some e, [], [], snd (resolve_interpreter w s))"
proof -
  obtain i s1 where r: "resolve_interpreter w s = (i, s1)"
    by (cases "resolve_interpreter w s")
  from assms r have "fst (cmd_Start w (capture_cmd i) s1) = Inl e"
    by (simp add: child_def)
  then have st: "cmd_Start w (capture_cmd i) s1 = (Inl e, s1)"
    by (auto simp: cmd_Start_def split: if_splits sum.splits)
  show ?thesis
    using r st
    by (simp add: run_capture_def cmd_Run_def new_buffers_def)
qed

lemma http_Error_new:
  "http_Error w new_response msg code =
     \<lparr>status = Some code,
      header = [''Content-Type'' \<mapsto> ''text/plain; charset=utf-8'',
                ''X-Content-Type-Options'' \<mapsto> ''nosniff''],
      writes = [msg @ [newline]]\<rparr>"
  by (simp add: http_Error_def new_response_def Header_Del_def Header_Set_def WriteHeader_def
      rw_Write_def Let_def split: prod.splits)

lemma respond_failed:
  "respond w (Some x) so se s new_response =
     (s\<lparr>logs := logs s @
          [Printf ''Failed to capture fingerprint %v'' [Err x],
           Printf (''Python stdout:'' @ [newline] @ ''%s'' @ [newline]) [Str so],
           Printf (''Python stderr:'' @ [newline] @ ''%s'' @ [newline]) [Str se]]\<rparr>,
      \<lparr>status = Some 500,
       header = [''Content-Type'' \<mapsto> ''text/plain; charset=utf-8'',
                 ''X-Content-Type-Options'' \<mapsto> ''nosniff''],
       writes = [''Failed to capture fingerprint: '' @ se @ [newline]]\<rparr>)"
  by (simp add: respond_def Let_def http_Error_new log_Printf_def StatusInternalServerError_def)

lemma respond_empty:
  "respond w None [] se s new_response =
     (s\<lparr>logs := logs s @ [Println [Str ''Python script returned empty output.'']]\<rparr>,
      \<lparr>status = Some 500,
       header = [''Content-Type'' \<mapsto> ''text/plain; charset=utf-8'',
                 ''X-Content-Type-Options'' \<mapsto> ''nosniff''],
       writes = [''No data received from Python script'' @ [newline]]\<rparr>)"
  by (simp add: respond_def Let_def http_Error_new log_Println_def StatusInternalServerError_def)

lemma respond_image:
  "so \<noteq> [] \<Longrightarrow> respond w None so se s new_response =
     (s, \<lparr>status = Some 200, header = [''Content-Type'' \<mapsto> ''image/png''], writes = [so]\<rparr>)"
  by (simp add: respond_def Let_def io_Copy_def rw_Write_def WriteHeader_def Header_Set_def
     new_response_def StatusOK_def split: prod.splits option.splits)

lemma HandleCapture_unfold:
  "HandleCapture w s rw =
     (let r = run_capture w s;
          b = respond w (fst r) (fst (snd r)) (fst (snd (snd r))) (snd (snd (snd r))) rw
      in ((fst b)\<lparr>logs := logs (fst b) @
                  [Printf ''sent fingerprint image and took %s'' [Dur (clock (fst b) - clock s)]]\<rparr>,
          snd b))"
  by (simp add: HandleCapture_def handler_body_def Let_def log_Printf_def time_Since_def
      time_Now_def split: prod.splits)

lemma child_state_free: "child w s = child w s'"
  by (simp add: child_eq resolve_interpreter_fst)

lemma run_outcome_eq:
  "run_outcome w s =
     (case child w s of
        Inl e \<Rightarrow> (Some e, [], [])
      | Inr p \<Rightarrow> ((if exit_status p = 0 then None else Some (ExitError (exit_status p))),
                  out p, err p))"
  by (simp add: run_outcome_def run_capture_started run_capture_not_started split: sum.splits)

lemma respond_reply:
  "snd (respond w e so se s new_response) =
     (case e of
        Some x \<Rightarrow> \<lparr>status = Some 500,
                   header = [''Content-Type'' \<mapsto> ''text/plain; charset=utf-8'',
                             ''X-Content-Type-Options'' \<mapsto> ''nosniff''],
                   writes = [''Failed to capture fingerprint: '' @ se @ [newline]]\<rparr>
      | None \<Rightarrow>
          if so = [] then
            \<lparr>status = Some 500,
             header = [''Content-Type'' \<mapsto> ''text/plain; charset=utf-8'',
                       ''X-Content-Type-Options'' \<mapsto> ''nosniff''],
             writes = [''No data received from Python script'' @ [newline]]\<rparr>
          else \<lparr>status = Some 200, header = [''Content-Type'' \<mapsto> ''image/png''],
                writes = [so]\<rparr>)"
  by (simp add: respond_failed respond_empty respond_image split: option.splits)

lemma reply_of_outcome:
  "run_outcome w s = (e, so, se) \<Longrightarrow> reply w s = snd (respond w' e so se s' new_response)"
proof -
  assume "run_outcome w s = (e, so, se)"
  then obtain s1 where r: "run_capture w s = (e, so, se, s1)"
    by (auto simp: run_outcome_def split: prod.splits)
  show ?thesis
    by (simp add: HandleCapture_unfold r Let_def respond_reply split: option.splits)
qed

subsection \<open>The scenarios\<close>

lemma child_posix_world: "child (posix_world p) s = Inr p"
  by (simp add: child_eq resolve_interpreter_fst posix_world_def default_pythonExec_def)

lemma child_venv_world: "child (venv_world p) s = Inr p"
  by (simp add: child_eq resolve_interpreter_fst venv_world_def venvPythonPath_def
      filepath_Join_def Separator_def abs_path_def)

lemma child_hangup_world: "child (hangup_world p) s = Inr p"
  by (simp add: child_eq resolve_interpreter_fst hangup_world_def posix_world_def
      default_pythonExec_def)

lemma child_windows_world: "child (windows_world p) s = Inr p"
  by (simp add: child_eq resolve_interpreter_fst windows_world_def default_pythonExec_def)

lemma child_no_python_world:
  "child no_python_world s = Inl (OSError ''executable file not found'')"
  by (simp add: child_eq resolve_interpreter_fst no_python_world_def default_pythonExec_def)

lemma child_lost_cwd_world: "child (lost_cwd_world p) s = Inl ErrNoCommand"
  by (simp add: child_eq resolve_interpreter_fst lost_cwd_world_def venvPythonPath_def
      filepath_Join_def Separator_def abs_path_def)

lemma resolve_posix_world: "resolve_interpreter (posix_world p) s = (''python3'', s)"
  by (simp add: resolve_interpreter_def posix_world_def default_pythonExec_def)

section \<open>The claims of the specification\<close>

text \<open>
  Claim C1. When the child ends with status 0 and has written at least one byte to its
  standard output, the handler answers with status 200 and content type
  \<^verbatim>\<open>image/png\<close>, and the body it hands to the response writer is the child's standard
  output, whole and unchanged, in a single write.
\<close>

theorem capture_success_forwards_stdout:
  assumes "child w s = Inr p" and "exit_status p = 0" and "out p \<noteq> []"
  shows "status (reply w s) = Some 200
       \<and> header (reply w s) ''Content-Type'' = Some ''image/png''
       \<and> writes (reply w s) = [out p]
       \<and> body (reply w s) = out p"
  using assms
  by (simp add: HandleCapture_unfold run_capture_started respond_image body_def)

theorem capture_success_forwards_stdout_witness:
  "child (posix_world ok_process) boot = Inr ok_process
   \<and> exit_status ok_process = 0 \<and> out ok_process \<noteq> []
   \<and> status (reply (posix_world ok_process) boot) = Some 200
   \<and> header (reply (posix_world ok_process) boot) ''Content-Type''
       = Some ''image/png''
   \<and> body (reply (posix_world ok_process) boot) = ''OKDATA''"
proof -
  have c: "child (posix_world ok_process) boot = Inr ok_process"
    by (rule child_posix_world)
  have e: "exit_status ok_process = 0" and o: "out ok_process \<noteq> []"
    by (simp_all add: ok_process_def)
  show ?thesis
    using c e o capture_success_forwards_stdout [OF c e o]
    by (simp add: ok_process_def)
qed

text \<open>
  Claim C2. The interpreter of a request: when \<^verbatim>\<open>os.Stat\<close> finds the interpreter of
  the virtual environment (\<^verbatim>\<open>venv\<close>, \<^verbatim>\<open>bin\<close>, \<^verbatim>\<open>python3\<close>, or on windows \<^verbatim>\<open>venv\<close>,
  \<^verbatim>\<open>Scripts\<close>, \<^verbatim>\<open>python.exe\<close>, joined by the platform's separator), the interpreter is
  what \<^verbatim>\<open>filepath.Abs\<close> makes of that path, the absolute path when it succeeds; when
  \<^verbatim>\<open>os.Stat\<close> returns an error, whichever it is, the interpreter is the default name,
  \<^verbatim>\<open>python3\<close>, or \<^verbatim>\<open>python\<close> on windows.
\<close>

theorem interpreter_resolution:
  "(os_Stat w (venvPythonPath w) = None \<longrightarrow>
      fst (resolve_interpreter w s) = abs_path (filepath_Abs w (venvPythonPath w)))
   \<and> (\<forall>a. os_Stat w (venvPythonPath w) = None \<and> filepath_Abs w (venvPythonPath w) = Inr a \<longrightarrow>
          fst (resolve_interpreter w s) = a)
   \<and> (\<forall>e. os_Stat w (venvPythonPath w) = Some e \<longrightarrow>
          fst (resolve_interpreter w s) = default_pythonExec w)
   \<and> (GOOS w \<noteq> ''windows'' \<longrightarrow>
          venvPythonPath w = ''venv/bin/python3'' \<and> default_pythonExec w = ''python3'')
   \<and> (GOOS w = ''windows'' \<longrightarrow>
          venvPythonPath w = ''venv'' @ [Separator ''windows''] @ ''Scripts''
                               @ [Separator ''windows''] @ ''python.exe''
          \<and> default_pythonExec w = ''python'')"
  by (simp add: resolve_interpreter_fst abs_path_def venvPythonPath_def default_pythonExec_def
      filepath_Join_def Separator_def)

theorem interpreter_resolution_witness:
  "os_Stat (venv_world ok_process) (venvPythonPath (venv_world ok_process)) = None
   \<and> filepath_Abs (venv_world ok_process) (venvPythonPath (venv_world ok_process))
       = Inr ''/app/venv/bin/python3''
   \<and> fst (resolve_interpreter (venv_world ok_process) boot) = ''/app/venv/bin/python3''
   \<and> os_Stat (posix_world ok_process) (venvPythonPath (posix_world ok_process))
       = Some (OSError ''no such file or directory'')
   \<and> fst (resolve_interpreter (posix_world ok_process) boot) = ''python3''
   \<and> GOOS (windows_world ok_process) = ''windows''
   \<and> os_Stat (windows_world ok_process) (venvPythonPath (windows_world ok_process))
       = Some (OSError ''The system cannot find the path specified.'')
   \<and> fst (resolve_interpreter (windows_world ok_process) boot) = ''python''"
proof -
  have v: "venvPythonPath (venv_world ok_process) = ''venv/bin/python3''"
    by (simp add: venv_world_def venvPythonPath_def filepath_Join_def Separator_def)
  have a: "os_Stat (venv_world ok_process) (venvPythonPath (venv_world ok_process)) = None"
    by (simp add: v) (simp add: venv_world_def)
  have b: "filepath_Abs (venv_world ok_process) (venvPythonPath (venv_world ok_process))
       = Inr ''/app/venv/bin/python3''"
    by (simp add: v) (simp add: venv_world_def)
  have c: "os_Stat (posix_world ok_process) (venvPythonPath (posix_world ok_process))
       = Some (OSError ''no such file or directory'')"
    by (simp add: posix_world_def)
  have g: "GOOS (windows_world ok_process) = ''windows''"
    and d: "os_Stat (windows_world ok_process) (venvPythonPath (windows_world ok_process))
       = Some (OSError ''The system cannot find the path specified.'')"
    by (simp_all add: windows_world_def)
  have p: "GOOS (posix_world ok_process) \<noteq> ''windows''"
    by (simp add: posix_world_def)
  have r1: "fst (resolve_interpreter (venv_world ok_process) boot) = ''/app/venv/bin/python3''"
    using a b interpreter_resolution [of "venv_world ok_process" boot] by blast
  have r2: "fst (resolve_interpreter (posix_world ok_process) boot) = ''python3''"
    using c p interpreter_resolution [of "posix_world ok_process" boot] by metis
  have r3: "fst (resolve_interpreter (windows_world ok_process) boot) = ''python''"
    using d g interpreter_resolution [of "windows_world ok_process" boot] by metis
  show ?thesis
    using a b c g d r1 r2 r3 by blast
qed

text \<open>
  Claim C3, as the code has it. When the child ends with a non-zero status, or cannot
  be started, the handler answers with status 500; the body is the prefix
  \<^verbatim>\<open>Failed to capture fingerprint: \<close>, then the contents of the standard-error buffer,
  then one newline, which \<^verbatim>\<open>http.Error\<close> appends; and the log receives the error, the
  whole standard output and the whole standard error, in this order, before the line
  with the elapsed time. A child that could not be started has written nothing, so both
  buffers are empty then.
\<close>

theorem capture_failure_response:
  "(\<forall>p. child w s = Inr p \<and> exit_status p \<noteq> 0 \<longrightarrow>
      status (reply w s) = Some 500
    \<and> body (reply w s) = ''Failed to capture fingerprint: '' @ err p @ [newline]
    \<and> logs (after w s) = logs (snd (resolve_interpreter w s)) @
        [Printf ''Failed to capture fingerprint %v'' [Err (ExitError (exit_status p))],
         Printf (''Python stdout:'' @ [newline] @ ''%s'' @ [newline]) [Str (out p)],
         Printf (''Python stderr:'' @ [newline] @ ''%s'' @ [newline]) [Str (err p)],
         Printf ''sent fingerprint image and took %s'' [Dur (int (run_ns p))]])
   \<and> (\<forall>e. child w s = Inl e \<longrightarrow>
      status (reply w s) = Some 500
    \<and> body (reply w s) = ''Failed to capture fingerprint: '' @ [newline]
    \<and> logs (after w s) = logs (snd (resolve_interpreter w s)) @
        [Printf ''Failed to capture fingerprint %v'' [Err e],
         Printf (''Python stdout:'' @ [newline] @ ''%s'' @ [newline]) [Str []],
         Printf (''Python stderr:'' @ [newline] @ ''%s'' @ [newline]) [Str []],
         Printf ''sent fingerprint image and took %s'' [Dur 0]])"
  by (simp add: HandleCapture_unfold run_capture_started run_capture_not_started respond_failed
      body_def resolve_interpreter_keeps)

theorem capture_failure_response_witness:
  "child (posix_world failing_process) boot = Inr failing_process
   \<and> exit_status failing_process \<noteq> 0
   \<and> status (reply (posix_world failing_process) boot) = Some 500
   \<and> body (reply (posix_world failing_process) boot)
       = ''Failed to capture fingerprint: sensor not found'' @ [newline]
   \<and> logs (after (posix_world failing_process) boot) =
        [Printf ''Failed to capture fingerprint %v'' [Err (ExitError 1)],
         Printf (''Python stdout:'' @ [newline] @ ''%s'' @ [newline]) [Str []],
         Printf (''Python stderr:'' @ [newline] @ ''%s'' @ [newline]) [Str ''sensor not found''],
         Printf ''sent fingerprint image and took %s'' [Dur 700]]
   \<and> child no_python_world boot = Inl (OSError ''executable file not found'')
   \<and> status (reply no_python_world boot) = Some 500
   \<and> body (reply no_python_world boot) = ''Failed to capture fingerprint: '' @ [newline]"
proof -
  have c: "child (posix_world failing_process) boot = Inr failing_process"
    by (rule child_posix_world)
  have x: "exit_status failing_process \<noteq> 0"
    by (simp add: failing_process_def)
  have n: "child no_python_world boot = Inl (OSError ''executable file not found'')"
    by (rule child_no_python_world)
  show ?thesis
    using c x n
      capture_failure_response [of "posix_world failing_process" boot]
      capture_failure_response [of no_python_world boot]
    by (simp add: failing_process_def resolve_posix_world boot_def)
qed

text \<open>
  Claim C3 as the specification words it does not hold: the body of such a response
  is not the prefix followed by the standard-error text alone. For the child that
  writes \<^verbatim>\<open>sensor not found\<close> and ends with status 1, the body ends with the newline and
  not with the last byte of that text.
\<close>

theorem capture_failure_body_counterexample:
  "child (posix_world failing_process) boot = Inr failing_process
   \<and> exit_status failing_process \<noteq> 0
   \<and> body (reply (posix_world failing_process) boot)
       \<noteq> ''Failed to capture fingerprint: '' @ err failing_process
   \<and> err failing_process \<noteq> []
   \<and> last (body (reply (posix_world failing_process) boot)) \<noteq> last (err failing_process)"
  by (simp add: child_posix_world HandleCapture_unfold run_capture_started respond_failed
      body_def failing_process_def newline_def)

text \<open>
  Claim C4. When the child ends with status 0 and has written nothing to its standard
  output, the handler answers with status 500 and one fixed body, the message
  \<^verbatim>\<open>No data received from Python script\<close> as \<^verbatim>\<open>http.Error\<close> writes it, whatever the
  child wrote to its standard error.
\<close>

theorem empty_output_response:
  assumes "child w s = Inr p" and "exit_status p = 0" and "out p = []"
  shows "status (reply w s) = Some 500
       \<and> body (reply w s) = ''No data received from Python script'' @ [newline]"
  using assms
  by (simp add: HandleCapture_unfold run_capture_started respond_empty body_def)

theorem empty_output_response_witness:
  "child (posix_world silent_process) boot = Inr silent_process
   \<and> exit_status silent_process = 0 \<and> out silent_process = []
   \<and> err silent_process = ''warming up''
   \<and> status (reply (posix_world silent_process) boot) = Some 500
   \<and> body (reply (posix_world silent_process) boot)
       = ''No data received from Python script'' @ [newline]"
proof -
  have c: "child (posix_world silent_process) boot = Inr silent_process"
    by (rule child_posix_world)
  have x: "exit_status silent_process = 0" and o: "out silent_process = []"
    by (simp_all add: silent_process_def)
  show ?thesis
    using c x o empty_output_response [OF c x o]
    by (simp add: silent_process_def)
qed

text \<open>
  Claim C5. The command of a request is made from the resolved interpreter as the
  program name and \<^verbatim>\<open>capture.py\<close> as its only argument; its standard output goes
  to one buffer and its standard error to another, both empty at first. The child is
  started from exactly that command. When \<^verbatim>\<open>cmd.Run()\<close> returns,
  the child has been waited for (the clock has moved on by its running time and no
  child of this request is left running), its standard output is in the first buffer
  and its standard error in the second; this is the outcome the handler then examines.
\<close>

theorem capture_invocation:
  "Args (capture_cmd (fst (resolve_interpreter w s)))
       = [fst (resolve_interpreter w s), ''capture.py'']
   \<and> Stdout (capture_cmd (fst (resolve_interpreter w s))) = Some StdoutBuf
   \<and> Stderr (capture_cmd (fst (resolve_interpreter w s))) = Some StderrBuf
   \<and> StdoutBuf \<noteq> StderrBuf
   \<and> new_buffers StdoutBuf = [] \<and> new_buffers StderrBuf = []
   \<and> child w s =
       (if fst (resolve_interpreter w s) = [] then Inl ErrNoCommand
        else start_process w (fst (resolve_interpreter w s))
               [fst (resolve_interpreter w s), ''capture.py''])
   \<and> (\<forall>p. child w s = Inr p \<longrightarrow>
         run_capture w s =
           ((if exit_status p = 0 then None else Some (ExitError (exit_status p))),
            out p, err p,
            (snd (resolve_interpreter w s))\<lparr>clock := clock s + int (run_ns p),
                                            running := running s\<rparr>))
   \<and> (\<forall>e. child w s = Inl e \<longrightarrow>
         run_capture w s = (Some e, [], [], snd (resolve_interpreter w s)))"
  using child_eq [of w s]
  by (simp add: run_capture_started run_capture_not_started capture_cmd_def exec_Command_def
      pythonScript_def new_buffers_def)

theorem capture_invocation_witness:
  "child (venv_world failing_process) boot = Inr failing_process
   \<and> Args (capture_cmd (fst (resolve_interpreter (venv_world failing_process) boot)))
       = [''/app/venv/bin/python3'', ''capture.py'']
   \<and> run_outcome (venv_world failing_process) boot
       = (Some (ExitError 1), [], ''sensor not found'')
   \<and> clock (snd (snd (snd (run_capture (venv_world failing_process) boot)))) = 700
   \<and> running (snd (snd (snd (run_capture (venv_world failing_process) boot)))) = 0
   \<and> child no_python_world boot = Inl (OSError ''executable file not found'')
   \<and> run_outcome no_python_world boot = (Some (OSError ''executable file not found''), [], [])"
proof -
  have c: "child (venv_world failing_process) boot = Inr failing_process"
    by (rule child_venv_world)
  have n: "child no_python_world boot = Inl (OSError ''executable file not found'')"
    by (rule child_no_python_world)
  have i: "fst (resolve_interpreter (venv_world failing_process) boot) = ''/app/venv/bin/python3''"
    by (simp add: resolve_interpreter_fst venv_world_def venvPythonPath_def
      filepath_Join_def Separator_def abs_path_def)
  show ?thesis
    using c n i
      capture_invocation [of "venv_world failing_process" boot]
      capture_invocation [of no_python_world boot]
    by (simp add: run_outcome_def failing_process_def boot_def)
qed

text \<open>
  Claim C6. Two invocations of the handler, in any two worlds and any two states left
  by earlier invocations, that see the same outcome of the child (the same error of
  \<^verbatim>\<open>cmd.Run()\<close>, the same standard output, the same standard error) give the same
  response. The outcome seen and the response do not depend on the state in which the
  request arrives: the buffers start empty in every request.
\<close>

theorem same_outcome_same_response:
  "(run_outcome w s = run_outcome w' s' \<longrightarrow> reply w s = reply w' s')
   \<and> run_outcome w s = run_outcome w s'
   \<and> reply w s = reply w s'"
proof -
  have a: "run_outcome w s = run_outcome w s'" for s s'
    using child_state_free [of w s s'] by (simp add: run_outcome_eq)
  have b: "reply w s = reply w' s'" if "run_outcome w s = run_outcome w' s'" for w' s'
  proof -
    obtain e so se where o: "run_outcome w s = (e, so, se)"
      by (cases "run_outcome w s")
    with that have o': "run_outcome w' s' = (e, so, se)"
      by simp
    show ?thesis
      using reply_of_outcome [OF o, of w s] reply_of_outcome [OF o', of w s]
      by simp
  qed
  show ?thesis
    using a [of s s'] b [of w s'] b [of w' s'] by blast
qed

theorem same_outcome_same_response_witness:
  "run_outcome (posix_world ok_process) boot
     = run_outcome (venv_world ok_process) (after (posix_world failing_process) boot)
   \<and> reply (posix_world ok_process) boot
     = reply (venv_world ok_process) (after (posix_world failing_process) boot)
   \<and> body (reply (venv_world ok_process) (after (posix_world failing_process) boot)) = ''OKDATA''"
proof -
  have o: "run_outcome (posix_world ok_process) boot
             = run_outcome (venv_world ok_process) (after (posix_world failing_process) boot)"
    by (simp add: run_outcome_eq child_posix_world child_venv_world)
  have b: "body (reply (posix_world ok_process) boot) = ''OKDATA''"
    by (simp add: HandleCapture_unfold run_capture_started child_posix_world respond_image
        body_def ok_process_def)
  have r: "reply (posix_world ok_process) boot
             = reply (venv_world ok_process) (after (posix_world failing_process) boot)"
    using o
      same_outcome_same_response [of "posix_world ok_process" boot "venv_world ok_process"
        "after (posix_world failing_process) boot"]
    by blast
  from b r have "body (reply (venv_world ok_process) (after (posix_world failing_process) boot))
                   = ''OKDATA''"
    by simp
  with o r show ?thesis
    by blast
qed

text \<open>
  Claim C7. On every path through the handler, the last thing logged, after all that
  the body of the handler logs, is the line with the time elapsed between entry and
  exit; that time contains the running time of the child.
\<close>

theorem elapsed_time_logged:
  "logs (fst (HandleCapture w s rw)) =
     logs (fst (handler_body w s rw)) @
       [Printf ''sent fingerprint image and took %s''
          [Dur (clock (fst (HandleCapture w s rw)) - clock s)]]
   \<and> clock (fst (HandleCapture w s rw)) =
       clock s + (case child w s of Inl e \<Rightarrow> 0 | Inr p \<Rightarrow> int (run_ns p))"
proof -
  have c: "clock (fst (respond w e so se s1 rw)) = clock s1" for e so se s1
    by (simp add: respond_def Let_def log_Printf_def log_Println_def
        split: option.splits prod.splits)
  have r: "clock (snd (snd (snd (run_capture w s)))) =
             clock s + (case child w s of Inl e \<Rightarrow> 0 | Inr p \<Rightarrow> int (run_ns p))"
    by (simp add: run_capture_started run_capture_not_started resolve_interpreter_keeps
        split: sum.splits)
  obtain x so se s1 where rc: "run_capture w s = (x, so, se, s1)"
    by (cases "run_capture w s")
  obtain s2 rw2 where rs: "respond w x so se s1 rw = (s2, rw2)"
    by (cases "respond w x so se s1 rw")
  have k: "clock s2 = clock s1"
    using c [of x so se s1] rs by simp
  show ?thesis
    using r k
    by (simp add: HandleCapture_def handler_body_def rc rs log_Printf_def time_Since_def
        time_Now_def)
qed

theorem elapsed_time_logged_witness:
  "logs (after (posix_world ok_process) boot)
     = [Printf ''sent fingerprint image and took %s'' [Dur 1500]]
   \<and> last (logs (after (posix_world failing_process) boot))
     = Printf ''sent fingerprint image and took %s'' [Dur 700]
   \<and> last (logs (after (posix_world silent_process) boot))
     = Printf ''sent fingerprint image and took %s'' [Dur 300]
   \<and> last (logs (after (hangup_world ok_process) boot))
     = Printf ''sent fingerprint image and took %s'' [Dur 1500]"
proof -
  have h: "logs (fst (handler_body (posix_world ok_process) boot new_response)) = []"
    by (simp add: handler_body_def run_capture_started child_posix_world respond_image
        ok_process_def resolve_posix_world boot_def)
  show ?thesis
    using h
      elapsed_time_logged [of "posix_world ok_process" boot new_response]
      elapsed_time_logged [of "posix_world failing_process" boot new_response]
      elapsed_time_logged [of "posix_world silent_process" boot new_response]
      elapsed_time_logged [of "hangup_world ok_process" boot new_response]
    by (simp add: child_posix_world child_hangup_world ok_process_def failing_process_def
        silent_process_def boot_def)
qed

text \<open>
  Claim C8. When copying the standard-output buffer to the response writer fails, the
  handler stops there: the response keeps status 200 and content type
  \<^verbatim>\<open>image/png\<close>, the one write of the buffer is the only write, there is no error
  response, and nothing is logged but the line with the elapsed time.
\<close>

theorem failed_copy_abandoned:
  assumes "child w s = Inr p" and "exit_status p = 0" and "out p \<noteq> []"
    and "snd (fst (io_Copy w (Header_Set ''Content-Type'' ''image/png'' new_response) (out p)))
           = Some x"
  shows "reply w s =
           \<lparr>status = Some 200, header = [''Content-Type'' \<mapsto> ''image/png''],
            writes = [out p]\<rparr>
       \<and> logs (after w s) = logs (snd (resolve_interpreter w s)) @
           [Printf ''sent fingerprint image and took %s'' [Dur (int (run_ns p))]]"
  using assms(1-3)
  by (simp add: HandleCapture_unfold run_capture_started respond_image resolve_interpreter_keeps)

theorem failed_copy_abandoned_witness:
  "child (hangup_world ok_process) boot = Inr ok_process
   \<and> exit_status ok_process = 0 \<and> out ok_process \<noteq> []
   \<and> snd (fst (io_Copy (hangup_world ok_process)
                 (Header_Set ''Content-Type'' ''image/png'' new_response) (out ok_process)))
       = Some (OSError ''broken pipe'')
   \<and> reply (hangup_world ok_process) boot =
        \<lparr>status = Some 200, header = [''Content-Type'' \<mapsto> ''image/png''],
         writes = [''OKDATA'']\<rparr>
   \<and> logs (after (hangup_world ok_process) boot) =
        [Printf ''sent fingerprint image and took %s'' [Dur 1500]]"
proof -
  have c: "child (hangup_world ok_process) boot = Inr ok_process"
    by (rule child_hangup_world)
  have x: "exit_status ok_process = 0" and o: "out ok_process \<noteq> []"
    by (simp_all add: ok_process_def)
  have e: "snd (fst (io_Copy (hangup_world ok_process)
                 (Header_Set ''Content-Type'' ''image/png'' new_response) (out ok_process)))
             = Some (OSError ''broken pipe'')"
    by (simp add: io_Copy_def rw_Write_def hangup_world_def ok_process_def Let_def)
  have r: "resolve_interpreter (hangup_world ok_process) boot = (''python3'', boot)"
    by (simp add: resolve_interpreter_def hangup_world_def posix_world_def default_pythonExec_def)
  show ?thesis
    using c x o e r failed_copy_abandoned [OF c x o e]
    by (simp add: ok_process_def boot_def)
qed

text \<open>
  Claim C9. Every response of the handler with status 500 has the content type
  \<^verbatim>\<open>text/plain; charset=utf-8\<close>, not \<^verbatim>\<open>image/png\<close>, and its body is the message
  (the fixed text when \<^verbatim>\<open>cmd.Run()\<close> returned no error, the prefix and the
  standard-error text otherwise) followed by exactly one newline.
\<close>

theorem error_responses_plain_text:
  assumes "status (reply w s) = Some 500" and "run_outcome w s = (e, so, se)"
  shows "header (reply w s) ''Content-Type'' = Some ''text/plain; charset=utf-8''
       \<and> header (reply w s) ''Content-Type'' \<noteq> Some ''image/png''
       \<and> writes (reply w s) =
           [(if e = None then ''No data received from Python script''
             else ''Failed to capture fingerprint: '' @ se) @ [newline]]
       \<and> body (reply w s) =
           (if e = None then ''No data received from Python script''
            else ''Failed to capture fingerprint: '' @ se) @ [newline]"
  using assms(1) reply_of_outcome [OF assms(2), of w s]
  by (auto simp: respond_reply body_def split: option.splits if_splits)

theorem error_responses_plain_text_witness:
  "status (reply (posix_world failing_process) boot) = Some 500
   \<and> run_outcome (posix_world failing_process) boot = (Some (ExitError 1), [], ''sensor not found'')
   \<and> header (reply (posix_world failing_process) boot) ''Content-Type''
       = Some ''text/plain; charset=utf-8''
   \<and> body (reply (posix_world failing_process) boot)
       = ''Failed to capture fingerprint: sensor not found'' @ [newline]
   \<and> status (reply (posix_world silent_process) boot) = Some 500
   \<and> run_outcome (posix_world silent_process) boot = (None, [], ''warming up'')
   \<and> header (reply (posix_world silent_process) boot) ''Content-Type''
       = Some ''text/plain; charset=utf-8''
   \<and> body (reply (posix_world silent_process) boot)
       = ''No data received from Python script'' @ [newline]"
proof -
  have f: "run_outcome (posix_world failing_process) boot
             = (Some (ExitError 1), [], ''sensor not found'')"
    by (simp add: run_outcome_eq child_posix_world failing_process_def)
  have q: "run_outcome (posix_world silent_process) boot = (None, [], ''warming up'')"
    by (simp add: run_outcome_eq child_posix_world silent_process_def)
  have sf: "status (reply (posix_world failing_process) boot) = Some 500"
    using reply_of_outcome [OF f, of "posix_world failing_process" boot]
    by (simp add: respond_reply)
  have sq: "status (reply (posix_world silent_process) boot) = Some 500"
    using reply_of_outcome [OF q, of "posix_world silent_process" boot]
    by (simp add: respond_reply)
  show ?thesis
    using f q sf sq error_responses_plain_text [OF sf f] error_responses_plain_text [OF sq q]
    by simp
qed

text \<open>
  Claim C10. When the interpreter of the virtual environment is found and
  \<^verbatim>\<open>filepath.Abs\<close> fails on its path, the interpreter is the empty string and not the
  default name; the command is refused, and the request is answered with status 500.
\<close>

theorem unresolved_venv_path_fails:
  assumes "os_Stat w (venvPythonPath w) = None"
    and "filepath_Abs w (venvPythonPath w) = Inl e"
  shows "fst (resolve_interpreter w s) = []
       \<and> fst (resolve_interpreter w s) \<noteq> default_pythonExec w
       \<and> child w s = Inl ErrNoCommand
       \<and> status (reply w s) = Some 500
       \<and> body (reply w s) = ''Failed to capture fingerprint: '' @ [newline]"
proof -
  have i: "fst (resolve_interpreter w s) = []"
    using assms by (simp add: resolve_interpreter_fst abs_path_def)
  have d: "default_pythonExec w \<noteq> []"
    by (simp add: default_pythonExec_def)
  have c: "child w s = Inl ErrNoCommand"
    using i by (simp add: child_eq)
  show ?thesis
    using i d c
    by (simp add: HandleCapture_unfold run_capture_not_started respond_failed body_def)
qed

theorem unresolved_venv_path_fails_witness:
  "os_Stat (lost_cwd_world ok_process) (venvPythonPath (lost_cwd_world ok_process)) = None
   \<and> filepath_Abs (lost_cwd_world ok_process) (venvPythonPath (lost_cwd_world ok_process))
       = Inl (OSError ''getwd: no such file or directory'')
   \<and> fst (resolve_interpreter (lost_cwd_world ok_process) boot) = []
   \<and> default_pythonExec (lost_cwd_world ok_process) = ''python3''
   \<and> status (reply (lost_cwd_world ok_process) boot) = Some 500
   \<and> body (reply (lost_cwd_world ok_process) boot) = ''Failed to capture fingerprint: '' @ [newline]"
proof -
  have a: "os_Stat (lost_cwd_world ok_process) (venvPythonPath (lost_cwd_world ok_process)) = None"
    by (simp add: lost_cwd_world_def venvPythonPath_def filepath_Join_def Separator_def)
  have b: "filepath_Abs (lost_cwd_world ok_process) (venvPythonPath (lost_cwd_world ok_process))
       = Inl (OSError ''getwd: no such file or directory'')"
    by (simp add: lost_cwd_world_def)
  have d: "default_pythonExec (lost_cwd_world ok_process) = ''python3''"
    by (simp add: default_pythonExec_def lost_cwd_world_def)
  show ?thesis
    using a b d unresolved_venv_path_fails [OF a b, of boot]
    by simp
qed

end
